theory Spec2Isabelle
  imports Main "HOL-Library.AList"
begin

section \<open>The ONNX serving path of \<^verbatim>\<open>onnx_serve/api.py\<close>\<close>

subsection \<open>Values\<close>

text \<open>
  A decoded JSON document, as \<^verbatim>\<open>request.get_json()\<close> hands it over: \<^verbatim>\<open>None\<close>,
  \<^verbatim>\<open>bool\<close>, \<^verbatim>\<open>int\<close> (unbounded), \<^verbatim>\<open>float\<close>, \<^verbatim>\<open>str\<close>, \<^verbatim>\<open>list\<close>, \<^verbatim>\<open>dict\<close>
  with string keys (an association list in insertion order). No function below computes
  with a float, so a float is carried as its literal.
\<close>

datatype json =
    JNull
  | JBool bool
  | JInt int
  | JFloat string
  | JStr string
  | JList "json list"
  | JDict "(string \<times> json) list"

text \<open>The exceptions of the path; the payload is the argument the exception was built from.\<close>

datatype exn =
    KeyError string
  | ValueError string
  | AttributeError string
  | TypeError string
  | CortexException "string list"
  | RuntimeError string

text \<open>
  Modelled from the spec: the input descriptor is the engine's class and is not part of
  the source file; section 3 gives it as a structure with a name, a declared type and a
  shape, a sequence of dimensions each a number or unknown (\<^verbatim>\<open>None\<close>), immutable
  once the model is loaded. The descriptors of the cache come from \<^verbatim>\<open>sess.get_inputs()\<close>
  (line 211) only; their attributes are read-only properties of the engine's object, and
  a read of \<^verbatim>\<open>shape\<close> builds a new list each time.
\<close>

record node_arg =
  name :: string
  type :: string
  shape :: "nat option list"

text \<open>
  Modelled from the spec: a dense array (numpy's \<^verbatim>\<open>ndarray\<close>, not part of the source
  file) is an element type, a concrete shape and the elements in row-major order. An
  element is written as the Python scalar that \<^verbatim>\<open>tolist\<close> gives for it.
\<close>

record ndarray =
  dtype :: string
  arr_shape :: "nat list"
  arr_data :: "json list"

text \<open>
  What \<^verbatim>\<open>transform_to_numpy\<close> tests with \<^verbatim>\<open>type(input_pyobj) is not np.ndarray\<close>:
  a value is a JSON value or a dense array. An array can only come from the hook
  \<^verbatim>\<open>pre_inference\<close> (line 158), as the sample itself.
\<close>

datatype pyobj = Json json | NdArray ndarray

text \<open>
  The library functions the path calls and whose results it only passes on:
  numpy's conversion of one scalar to an element type, \<^verbatim>\<open>json.dumps\<close>, \<^verbatim>\<open>str\<close> of an
  exception and \<^verbatim>\<open>CortexException.wrap\<close>.
\<close>

record runtime =
  np_scalar :: "string \<Rightarrow> json \<Rightarrow> exn + json"
  json_dumps :: "json \<Rightarrow> string"
  exn_str :: "exn \<Rightarrow> string"
  exn_wrap :: "string list \<Rightarrow> exn \<Rightarrow> exn"

subsection \<open>Python helpers\<close>

definition quote :: "string \<Rightarrow> string" where
  "quote s = CHR 0x27 # s @ [CHR 0x27]"

fun py_type_name :: "json \<Rightarrow> string" where
  "py_type_name JNull = ''NoneType''"
| "py_type_name (JBool b) = ''bool''"
| "py_type_name (JInt i) = ''int''"
| "py_type_name (JFloat f) = ''float''"
| "py_type_name (JStr s) = ''str''"
| "py_type_name (JList xs) = ''list''"
| "py_type_name (JDict kvs) = ''dict''"

text \<open>\<^verbatim>\<open>sep.join(xs)\<close>\<close>

fun join :: "string \<Rightarrow> string list \<Rightarrow> string" where
  "join sep [] = []"
| "join sep [x] = x"
| "join sep (x # y # ys) = x @ sep @ join sep (y # ys)"

text \<open>
  Modelled from the spec: \<^verbatim>\<open>util.is_dict\<close> and \<^verbatim>\<open>util.is_list\<close> belong to
  \<^verbatim>\<open>cortex.lib.util\<close>, which is not part of the source file; the spec reads them as
  "is a mapping" and "is a sequence".
\<close>

fun is_dict :: "json \<Rightarrow> bool" where
  "is_dict (JDict kvs) = True"
| "is_dict v = False"

fun is_list :: "json \<Rightarrow> bool" where
  "is_list (JList xs) = True"
| "is_list v = False"

text \<open>\<^verbatim>\<open>sample.get(key)\<close>: the value, \<^verbatim>\<open>None\<close> for a missing key; only a dict has \<^verbatim>\<open>get\<close>.\<close>

fun py_get :: "json \<Rightarrow> string \<Rightarrow> exn + json" where
  "py_get (JDict kvs) k = Inr (case map_of kvs k of None \<Rightarrow> JNull | Some v \<Rightarrow> v)"
| "py_get v k = Inl (AttributeError (quote (py_type_name v) @ '' object has no attribute '' @ quote ''get''))"

text \<open>\<^verbatim>\<open>sample[key]\<close> with a string key.\<close>

fun py_getitem :: "json \<Rightarrow> string \<Rightarrow> exn + json" where
  "py_getitem (JDict kvs) k = (case map_of kvs k of None \<Rightarrow> Inl (KeyError k) | Some v \<Rightarrow> Inr v)"
| "py_getitem v k = Inl (TypeError (quote (py_type_name v) @ '' object is not subscriptable with a string''))"

text \<open>
  \<^verbatim>\<open>key in payload\<close>, which line 137 evaluates only when the payload is a dict
  (\<^verbatim>\<open>or\<close> does not evaluate its second operand otherwise).
\<close>

fun has_key :: "json \<Rightarrow> string \<Rightarrow> bool" where
  "has_key (JDict kvs) k = (map_of kvs k \<noteq> None)"
| "has_key v k = False"

text \<open>
  \<^verbatim>\<open>sample.is_dict(input_metadata)\<close>, line 109: a method looked up on the sample
  itself. None of the types of a decoded JSON value has an attribute \<^verbatim>\<open>is_dict\<close>, so
  the lookup raises before anything is called.
\<close>

definition method_is_dict :: "json \<Rightarrow> node_arg \<Rightarrow> exn + bool" where
  "method_is_dict sample input_metadata =
     Inl (AttributeError (quote (py_type_name sample) @ '' object has no attribute '' @ quote ''is_dict''))"

text \<open>The items that \<^verbatim>\<open>enumerate\<close> goes through, for a list.\<close>

fun list_items :: "json \<Rightarrow> json list" where
  "list_items (JList xs) = xs"
| "list_items v = []"

text \<open>\<^verbatim>\<open>len(x)\<close>\<close>

fun py_len :: "json \<Rightarrow> exn + nat" where
  "py_len (JList xs) = Inr (length xs)"
| "py_len (JDict kvs) = Inr (length kvs)"
| "py_len (JStr s) = Inr (length s)"
| "py_len v = Inl (TypeError (''object of type '' @ quote (py_type_name v) @ '' has no len()''))"

subsection \<open>numpy\<close>

text \<open>
  Modelled from the spec: \<^verbatim>\<open>np.array(obj, dtype=...)\<close> "constructs a new dense array of
  the target element type from the raw JSON value". The shape is read off the nesting of
  the lists (a value that is not a list is a scalar; the items of a list must agree on
  their shape), and every scalar is converted by \<^const>\<open>np_scalar\<close>.
\<close>

fun np_dims :: "json \<Rightarrow> nat list option" where
  "np_dims (JList xs) =
     (case map np_dims xs of
        [] \<Rightarrow> Some [0]
      | d # ds \<Rightarrow>
          (case d of
             None \<Rightarrow> None
           | Some s \<Rightarrow> if list_all (\<lambda>d'. d' = Some s) ds then Some (length xs # s) else None))"
| "np_dims v = Some []"

fun np_leaves :: "json \<Rightarrow> json list" where
  "np_leaves (JList xs) = concat (map np_leaves xs)"
| "np_leaves v = [v]"

fun cast_all :: "(json \<Rightarrow> exn + json) \<Rightarrow> json list \<Rightarrow> exn + json list" where
  "cast_all f [] = Inr []"
| "cast_all f (x # xs) =
     (case f x of
        Inl e \<Rightarrow> Inl e
      | Inr y \<Rightarrow> (case cast_all f xs of Inl e \<Rightarrow> Inl e | Inr ys \<Rightarrow> Inr (y # ys)))"

definition np_array :: "runtime \<Rightarrow> json \<Rightarrow> string \<Rightarrow> exn + ndarray" where
  "np_array rt obj target_dtype =
     (case np_dims obj of
        None \<Rightarrow> Inl (ValueError ''setting an array element with a sequence.'')
      | Some s \<Rightarrow>
          (case cast_all (np_scalar rt target_dtype) (np_leaves obj) of
             Inl e \<Rightarrow> Inl e
           | Inr xs \<Rightarrow> Inr \<lparr>dtype = target_dtype, arr_shape = s, arr_data = xs\<rparr>))"

text \<open>
  Modelled from the spec: \<^verbatim>\<open>np_arr.reshape(target_shape)\<close> "fails if the element count
  is incompatible with the target shape's product". A dimension that is still \<^verbatim>\<open>None\<close>
  is not an integer.
\<close>

definition reshape :: "ndarray \<Rightarrow> nat option list \<Rightarrow> exn + ndarray" where
  "reshape np_arr target_shape =
     (case those target_shape of
        None \<Rightarrow> Inl (TypeError (quote ''NoneType'' @ '' object cannot be interpreted as an integer''))
      | Some ds \<Rightarrow>
          if prod_list ds = prod_list (arr_shape np_arr)
          then Inr (np_arr\<lparr>arr_shape := ds\<rparr>)
          else Inl (ValueError ''cannot reshape array''))"

subsection \<open>\<^verbatim>\<open>transform_to_numpy\<close>\<close>

definition onnx_to_np :: "(string \<times> string) list" where
  "onnx_to_np =
     [(''tensor(float16)'', ''float16''),
      (''tensor(float)'', ''float32''),
      (''tensor(double)'', ''float64''),
      (''tensor(int32)'', ''int32''),
      (''tensor(int8)'', ''int8''),
      (''tensor(uint8)'', ''uint8''),
      (''tensor(int16)'', ''int16''),
      (''tensor(uint16)'', ''uint16''),
      (''tensor(int64)'', ''int64''),
      (''tensor(uint64)'', ''uint64''),
      (''tensor(bool)'', ''bool''),
      (''tensor(string)'', ''string'')]"

text \<open>
  Lines 81 to 83, \<^verbatim>\<open>for idx, dim in enumerate(target_shape)\<close>: the indices in order,
  the list written in place.
\<close>

fun fill_unknown :: "nat list \<Rightarrow> nat option list \<Rightarrow> nat option list" where
  "fill_unknown [] target_shape = target_shape"
| "fill_unknown (idx # rest) target_shape =
     fill_unknown rest
       (if target_shape ! idx = None then target_shape[idx := Some 1] else target_shape)"

text \<open>
  \<^verbatim>\<open>target_shape = input_metadata.shape\<close> binds the new list that the read of the
  property builds, and the loop of lines 81 to 83 writes into that list. The function
  returns its result together with the descriptor as it is after the call.
\<close>

definition transform_to_numpy :: "runtime \<Rightarrow> pyobj \<Rightarrow> node_arg \<Rightarrow> (exn + ndarray) \<times> node_arg" where
  "transform_to_numpy rt input_pyobj input_metadata =
     (case map_of onnx_to_np (type input_metadata) of
        None \<Rightarrow> (Inl (KeyError (type input_metadata)), input_metadata)
      | Some target_dtype \<Rightarrow>
          (let target_shape =
                 fill_unknown [0 ..< length (shape input_metadata)] (shape input_metadata)
           in case (case input_pyobj of
                      Json v \<Rightarrow> np_array rt v target_dtype
                    | NdArray a \<Rightarrow> Inr a) of
                Inl e \<Rightarrow> (Inl e, input_metadata)
              | Inr np_arr \<Rightarrow> (reshape np_arr target_shape, input_metadata)))"

subsection \<open>\<^verbatim>\<open>convert_to_onnx_input\<close>\<close>

text \<open>
  The loop of the branch for several inputs, lines 108 to 118. The descriptors already
  visited are kept in \<open>done\<close>, the dictionary
  \<^verbatim>\<open>input_dict\<close> is an association list in insertion order.
\<close>

fun convert_loop ::
  "runtime \<Rightarrow> json \<Rightarrow> node_arg list \<Rightarrow> node_arg list \<Rightarrow> (string \<times> ndarray) list
    \<Rightarrow> (exn + (string \<times> ndarray) list) \<times> node_arg list" where
  "convert_loop rt sample done [] input_dict = (Inr input_dict, done)"
| "convert_loop rt sample done (input_metadata # todo) input_dict =
     (case method_is_dict sample input_metadata of
        Inl e \<Rightarrow> (Inl e, done @ input_metadata # todo)
      | Inr b \<Rightarrow>
          if \<not> b then
            (Inl (ValueError (''sample should be a dict containing keys: ''
                    @ join '', '' (map name (done @ input_metadata # todo)))),
             done @ input_metadata # todo)
          else
            (case py_get sample (name input_metadata) of
               Inl e \<Rightarrow> (Inl e, done @ input_metadata # todo)
             | Inr v \<Rightarrow>
                 if v = JNull then
                   (Inl (ValueError (''sample should be a dict containing key: ''
                           @ name input_metadata)),
                    done @ input_metadata # todo)
                 else
                   (case transform_to_numpy rt (Json sample) input_metadata of
                      (Inl e, input_metadata') \<Rightarrow> (Inl e, done @ input_metadata' # todo)
                    | (Inr np_arr, input_metadata') \<Rightarrow>
                        convert_loop rt sample (done @ [input_metadata']) todo
                          (AList.update (name input_metadata) np_arr input_dict))))"

text \<open>
  The result is the dictionary or the exception, together with the descriptors as they
  are after the call.
\<close>

fun convert_to_onnx_input ::
  "runtime \<Rightarrow> json \<Rightarrow> node_arg list \<Rightarrow> (exn + (string \<times> ndarray) list) \<times> node_arg list" where
  "convert_to_onnx_input rt sample [input_metadata] =
     (if is_dict sample then
        (case py_get sample (name input_metadata) of
           Inl e \<Rightarrow> (Inl e, [input_metadata])
         | Inr v \<Rightarrow>
             if v = JNull then
               (Inl (ValueError (''sample should be a dict containing key: ''
                       @ name input_metadata)),
                [input_metadata])
             else
               (case py_getitem sample (name input_metadata) of
                  Inl e \<Rightarrow> (Inl e, [input_metadata])
                | Inr x \<Rightarrow>
                    (case transform_to_numpy rt (Json x) input_metadata of
                       (Inl e, input_metadata') \<Rightarrow> (Inl e, [input_metadata'])
                     | (Inr np_arr, input_metadata') \<Rightarrow>
                         (Inr [(name input_metadata, np_arr)], [input_metadata']))))
      else
        (case transform_to_numpy rt (Json sample) input_metadata of
           (Inl e, input_metadata') \<Rightarrow> (Inl e, [input_metadata'])
         | (Inr np_arr, input_metadata') \<Rightarrow>
             (Inr [(name input_metadata, np_arr)], [input_metadata'])))"
| "convert_to_onnx_input rt sample input_metadata_list =
     convert_loop rt sample [] input_metadata_list []"

text \<open>
  The same function on the sample as the handler passes it, which is the hook's result
  when there is a hook and may then be a dense array. An array is not a dict for
  \<^verbatim>\<open>util.is_dict\<close> (line 99), so with one descriptor the array itself is coerced (line
  106); with several, line 109 looks up \<^verbatim>\<open>is_dict\<close> on it as on any other sample; with
  none, the loop has no turn.
\<close>

fun convert_to_onnx_input_any ::
  "runtime \<Rightarrow> pyobj \<Rightarrow> node_arg list \<Rightarrow> (exn + (string \<times> ndarray) list) \<times> node_arg list" where
  "convert_to_onnx_input_any rt (Json sample) input_metadata_list =
     convert_to_onnx_input rt sample input_metadata_list"
| "convert_to_onnx_input_any rt (NdArray arr) [input_metadata] =
     (case transform_to_numpy rt (NdArray arr) input_metadata of
        (Inl e, input_metadata') \<Rightarrow> (Inl e, [input_metadata'])
      | (Inr np_arr, input_metadata') \<Rightarrow>
          (Inr [(name input_metadata, np_arr)], [input_metadata']))"
| "convert_to_onnx_input_any rt (NdArray arr) [] = (Inr [], [])"
| "convert_to_onnx_input_any rt (NdArray arr) input_metadata_list =
     (Inl (AttributeError
             (quote ''numpy.ndarray'' @ '' object has no attribute '' @ quote ''is_dict'')),
      input_metadata_list)"

subsection \<open>The request handler \<^verbatim>\<open>predict\<close>\<close>

text \<open>
  Modelled from the spec: the engine and the user's hooks are not part of the source
  file. Section 4.3 has the engine return, for named input tensors, a sequence of
  outputs, each a dense array or some other value that is passed on as it is; section
  4.4 types each hook as a function to a JSON value that may raise, and makes each of
  them optional. The hook before the inference may also return a dense array, which the
  coercion takes as it is (lines 85 to 88, section 4.1).
\<close>

datatype engine_output = Arr ndarray | Other json

record handler =
  pre_inference :: "(json \<Rightarrow> node_arg list \<Rightarrow> exn + pyobj) option"
  post_inference :: "(json \<Rightarrow> node_arg list \<Rightarrow> exn + json) option"

text \<open>
  \<^verbatim>\<open>local_cache\<close>: the session (its \<^verbatim>\<open>run\<close>), the id of the api, the request handler
  if the api has one, and the descriptors. The context and the name of the api are
  used for log lines only, which are not modelled.
\<close>

record local_cache =
  sess :: "(string \<times> ndarray) list \<Rightarrow> exn + engine_output list"
  api_id :: string
  request_handler :: "handler option"
  input_metadata :: "node_arg list"
  output_metadata :: "node_arg list"

datatype body = Text string | JsonBody json

datatype response = Response nat body

text \<open>\<^verbatim>\<open>str(n)\<close> for a natural number, as \<^verbatim>\<open>"sample {}".format(i + 1)\<close> needs it.\<close>

function str_nat :: "nat \<Rightarrow> string" where
  "str_nat n =
     (if n < 10 then [''0123456789'' ! n]
      else str_nat (n div 10) @ [''0123456789'' ! (n mod 10)])"
  by pat_completeness auto
termination
  by (relation "measure id") auto

text \<open>
  \<^verbatim>\<open>json.dumps(sample)\<close>, line 64: the text of a JSON value; a dense array is not
  serialisable and \<^verbatim>\<open>json.dumps\<close> raises \<^verbatim>\<open>TypeError\<close> for it.
\<close>

fun dumps :: "runtime \<Rightarrow> pyobj \<Rightarrow> exn + string" where
  "dumps rt (Json v) = Inr (json_dumps rt v)"
| "dumps rt (NdArray a) = Inl (TypeError ''Object of type ndarray is not JSON serializable'')"

definition prediction_failed :: "runtime \<Rightarrow> pyobj \<Rightarrow> string \<Rightarrow> exn + response" where
  "prediction_failed rt sample reason =
     (case dumps rt sample of
        Inl e \<Rightarrow> Inl e
      | Inr text \<Rightarrow>
          Inr (Response 406
                 (Text (''prediction failed for sample: '' @ text
                        @ (if reason \<noteq> [] then '' ('' @ reason @ '')'' else [])))))"

text \<open>\<^verbatim>\<open>type(model_output) is np.ndarray\<close>, lines 162 to 167.\<close>

fun split_rows :: "nat \<Rightarrow> nat \<Rightarrow> 'a list \<Rightarrow> 'a list list" where
  "split_rows 0 k xs = []"
| "split_rows (Suc n) k xs = take k xs # split_rows n k (drop k xs)"

text \<open>
  Modelled from the spec: \<^verbatim>\<open>ndarray.tolist\<close> gives "nested sequences", one level for
  each dimension; an array without dimensions gives its only element.
\<close>

fun tolist_rows :: "nat list \<Rightarrow> json list \<Rightarrow> json" where
  "tolist_rows [] xs = (case xs of [] \<Rightarrow> JNull | x # rest \<Rightarrow> x)"
| "tolist_rows (n # s) xs = JList (map (tolist_rows s) (split_rows n (prod_list s) xs))"

definition tolist :: "ndarray \<Rightarrow> json" where
  "tolist a = tolist_rows (arr_shape a) (arr_data a)"

fun marshal :: "engine_output list \<Rightarrow> json list \<Rightarrow> json list" where
  "marshal [] result = result"
| "marshal (model_output # rest) result =
     marshal rest
       (case model_output of
          Arr a \<Rightarrow> result @ [tolist a]
        | Other v \<Rightarrow> result @ [v])"

definition apply_pre :: "local_cache \<Rightarrow> json \<Rightarrow> node_arg list \<Rightarrow> exn + pyobj" where
  "apply_pre lc sample metas =
     (case request_handler lc of
        None \<Rightarrow> Inr (Json sample)
      | Some h \<Rightarrow>
          (case pre_inference h of None \<Rightarrow> Inr (Json sample) | Some f \<Rightarrow> f sample metas))"

definition apply_post :: "local_cache \<Rightarrow> json \<Rightarrow> exn + json" where
  "apply_post lc result =
     (case request_handler lc of
        None \<Rightarrow> Inr result
      | Some h \<Rightarrow>
          (case post_inference h of None \<Rightarrow> Inr result | Some f \<Rightarrow> f result (output_metadata lc)))"

text \<open>
  The body of the \<^verbatim>\<open>try\<close>, lines 154 to 173, for one sample: the prediction, or the
  exception together with the value the variable \<^verbatim>\<open>sample\<close> holds when it is raised
  (the hook's result once the hook has returned); and the descriptors after it.
\<close>

definition run_sample ::
  "runtime \<Rightarrow> local_cache \<Rightarrow> node_arg list \<Rightarrow> json \<Rightarrow> ((exn \<times> pyobj) + json) \<times> node_arg list" where
  "run_sample rt lc metas raw =
     (case apply_pre lc raw metas of
        Inl e \<Rightarrow> (Inl (e, Json raw), metas)
      | Inr sample \<Rightarrow>
          (case convert_to_onnx_input_any rt sample metas of
             (Inl e, metas') \<Rightarrow> (Inl (e, sample), metas')
           | (Inr inference_input, metas') \<Rightarrow>
               (case sess lc inference_input of
                  Inl e \<Rightarrow> (Inl (e, sample), metas')
                | Inr model_outputs \<Rightarrow>
                    (case apply_post lc (JList (marshal model_outputs [])) of
                       Inl e \<Rightarrow> (Inl (e, sample), metas')
                     | Inr result \<Rightarrow> (Inr (JDict [(''prediction'', result)]), metas')))))"

text \<open>
  The two \<^verbatim>\<open>except\<close> clauses, lines 174 to 185; \<open>i\<close> is the index of \<^verbatim>\<open>enumerate\<close>.
  What \<^verbatim>\<open>prediction_failed\<close> raises there is raised outside the \<^verbatim>\<open>try\<close> and leaves
  the handler.
\<close>

fun is_cortex_exception :: "exn \<Rightarrow> bool" where
  "is_cortex_exception (CortexException msgs) = True"
| "is_cortex_exception e = False"

definition failure_reason :: "runtime \<Rightarrow> nat \<Rightarrow> exn \<Rightarrow> string" where
  "failure_reason rt i e =
     (if is_cortex_exception e
      then exn_str rt (exn_wrap rt [''error'', ''sample '' @ str_nat (i + 1)] e)
      else exn_str rt e)"

definition sample_failed :: "runtime \<Rightarrow> nat \<Rightarrow> exn \<times> pyobj \<Rightarrow> exn + response" where
  "sample_failed rt i failure =
     (case failure of (e, sample) \<Rightarrow> prediction_failed rt sample (failure_reason rt i e))"

definition jsonify :: "(string \<times> json) list \<Rightarrow> response" where
  "jsonify d = Response 200 (JsonBody (JDict d))"

text \<open>The loop over the samples, lines 151 to 192.\<close>

fun predict_loop ::
  "runtime \<Rightarrow> local_cache \<Rightarrow> node_arg list \<Rightarrow> nat \<Rightarrow> json list \<Rightarrow> json list
    \<Rightarrow> (exn + response) \<times> node_arg list" where
  "predict_loop rt lc metas i [] predictions =
     (Inr (jsonify [(''predictions'', JList predictions), (''resource_id'', JStr (api_id lc))]),
      metas)"
| "predict_loop rt lc metas i (sample # rest) predictions =
     (case run_sample rt lc metas sample of
        (Inl failure, metas') \<Rightarrow> (sample_failed rt i failure, metas')
      | (Inr prediction, metas') \<Rightarrow>
          predict_loop rt lc metas' (Suc i) rest (predictions @ [prediction]))"

text \<open>
  The handler. Its argument is what \<^verbatim>\<open>request.get_json()\<close> did: raise, or return the
  decoded body. Its result is the response, or the exception that leaves the handler
  uncaught, and the descriptors of the cache as they are afterwards.
\<close>

definition predict ::
  "runtime \<Rightarrow> local_cache \<Rightarrow> exn + json \<Rightarrow> (exn + response) \<times> node_arg list" where
  "predict rt lc got =
     (case got of
        Inl e \<Rightarrow> (Inr (Response 400 (Text ''Malformed JSON'')), input_metadata lc)
      | Inr payload \<Rightarrow>
          if \<not> is_dict payload \<or> \<not> has_key payload ''samples'' then
            (prediction_failed rt (Json payload)
               ''top level `samples` key not found in request'',
             input_metadata lc)
          else
            (case py_getitem payload ''samples'' of
               Inl e \<Rightarrow> (Inl e, input_metadata lc)
             | Inr samples \<Rightarrow>
                 (case py_len samples of
                    Inl e \<Rightarrow> (Inl e, input_metadata lc)
                  | Inr n \<Rightarrow>
                      if \<not> is_list samples then
                        (prediction_failed rt (Json payload)
                           ''expected the value of key `samples` to be a list of json objects'',
                         input_metadata lc)
                      else
                        predict_loop rt lc (input_metadata lc) 0 (list_items samples) [])))"

subsection \<open>The batch, sample by sample\<close>

text \<open>
  The descriptors as the loop finds them when it comes to the sample at index \<open>i\<close>,
  and what the body of the \<^verbatim>\<open>try\<close> does with that sample then.
\<close>

fun metas_before ::
  "runtime \<Rightarrow> local_cache \<Rightarrow> node_arg list \<Rightarrow> json list \<Rightarrow> nat \<Rightarrow> node_arg list" where
  "metas_before rt lc metas samples 0 = metas"
| "metas_before rt lc metas [] (Suc i) = metas"
| "metas_before rt lc metas (sample # rest) (Suc i) =
     metas_before rt lc (snd (run_sample rt lc metas sample)) rest i"

definition outcome ::
  "runtime \<Rightarrow> local_cache \<Rightarrow> json list \<Rightarrow> nat \<Rightarrow> (exn \<times> pyobj) + json" where
  "outcome rt lc samples i =
     fst (run_sample rt lc (metas_before rt lc (input_metadata lc) samples i) (samples ! i))"

text \<open>The target shape in the words of the spec: every unknown dimension replaced by 1.\<close>

definition spec_target_shape :: "nat option list \<Rightarrow> nat list" where
  "spec_target_shape sh = map (\<lambda>dim. case dim of None \<Rightarrow> 1 | Some n \<Rightarrow> n) sh"

subsection \<open>An instance for the examples\<close>

text \<open>
  One choice of the library functions, the engine and the hooks, on which the examples
  below are evaluated: \<^verbatim>\<open>json.dumps\<close> without escapes in strings, a conversion of
  scalars that takes integers of 64 bits to \<^verbatim>\<open>int64\<close> and nothing else, \<^verbatim>\<open>str\<close> of an
  exception as its message, and an engine that gives its inputs back.
\<close>

definition str_int :: "int \<Rightarrow> string" where
  "str_int i = (if i < 0 then CHR ''-'' # str_nat (nat (- i)) else str_nat (nat i))"

definition dquote :: "string \<Rightarrow> string" where
  "dquote s = CHR 0x22 # s @ [CHR 0x22]"

fun example_dumps :: "json \<Rightarrow> string" where
  "example_dumps JNull = ''null''"
| "example_dumps (JBool b) = (if b then ''true'' else ''false'')"
| "example_dumps (JInt i) = str_int i"
| "example_dumps (JFloat f) = f"
| "example_dumps (JStr s) = dquote s"
| "example_dumps (JList xs) = ''['' @ join '', '' (map example_dumps xs) @ '']''"
| "example_dumps (JDict kvs) =
     ''{'' @ join '', '' (map (\<lambda>kv. dquote (fst kv) @ '': '' @ example_dumps (snd kv)) kvs) @ ''}''"

definition example_scalar :: "string \<Rightarrow> json \<Rightarrow> exn + json" where
  "example_scalar target_dtype v =
     (case v of
        JInt i \<Rightarrow>
          if target_dtype = ''int64'' \<and> - (2 ^ 63) \<le> i \<and> i < 2 ^ 63 then Inr (JInt i)
          else Inl (TypeError ''conversion outside the example'')
      | _ \<Rightarrow> Inl (TypeError ''conversion outside the example''))"

fun example_str :: "exn \<Rightarrow> string" where
  "example_str (KeyError k) = quote k"
| "example_str (ValueError m) = m"
| "example_str (AttributeError m) = m"
| "example_str (TypeError m) = m"
| "example_str (CortexException msgs) = join '': '' msgs"
| "example_str (RuntimeError m) = m"

fun example_wrap :: "string list \<Rightarrow> exn \<Rightarrow> exn" where
  "example_wrap msgs (CortexException stack) = CortexException (msgs @ stack)"
| "example_wrap msgs e = e"

definition example_runtime :: runtime where
  "example_runtime =
     \<lparr>np_scalar = example_scalar, json_dumps = example_dumps,
      exn_str = example_str, exn_wrap = example_wrap\<rparr>"

definition example_input :: node_arg where
  "example_input = \<lparr>name = ''x'', type = ''tensor(int64)'', shape = [None, Some 3]\<rparr>"

definition example_second_input :: node_arg where
  "example_second_input = \<lparr>name = ''y'', type = ''tensor(int64)'', shape = [Some 1]\<rparr>"

definition example_cache :: local_cache where
  "example_cache =
     \<lparr>sess = (\<lambda>inputs. Inr (map (\<lambda>kv. Arr (snd kv)) inputs)),
      api_id = ''a1'',
      request_handler = None,
      input_metadata = [example_input],
      output_metadata = [example_input]\<rparr>"

text \<open>
  The same cache with a hook before the inference that hands the engine a dense array
  of two elements, whatever the sample.
\<close>

definition example_array_hook :: handler where
  "example_array_hook =
     \<lparr>pre_inference =
        Some (\<lambda>sample metas.
                Inr (NdArray \<lparr>dtype = ''int64'', arr_shape = [2],
                               arr_data = [JInt 1, JInt 2]\<rparr>)),
      post_inference = None\<rparr>"

definition example_array_cache :: local_cache where
  "example_array_cache = example_cache\<lparr>request_handler := Some example_array_hook\<rparr>"

section \<open>Properties\<close>

subsection \<open>Arrays built from JSON values\<close>

text \<open>
  An array that the coercion builds from a JSON value has as many elements as its shape
  says.
\<close>

lemma cast_all_length: "cast_all f xs = Inr ys \<Longrightarrow> length ys = length xs"
  by (induction xs arbitrary: ys) (auto split: sum.splits)

lemma np_dims_leaves: "np_dims obj = Some s \<Longrightarrow> length (np_leaves obj) = prod_list s"
proof (induction obj arbitrary: s rule: np_dims.induct)
  case (1 xs)
  show ?case
  proof (cases xs)
    case Nil
    with "1.prems" show ?thesis by auto
  next
    case (Cons y ys)
    with "1.prems" obtain s' where s': "np_dims y = Some s'"
      and all: "list_all (\<lambda>d. d = Some s') (map np_dims ys)"
      and s: "s = length xs # s'"
      by (auto split: option.splits if_splits)
    have each: "\<forall>x \<in> set xs. length (np_leaves x) = prod_list s'"
      using s' all "1.IH" Cons by (auto simp: list_all_iff)
    have "length (np_leaves (JList xs)) = sum_list (map (\<lambda>x. length (np_leaves x)) xs)"
      by (simp add: length_concat o_def)
    also have "\<dots> = sum_list (map (\<lambda>x. prod_list s') xs)"
      using each by (metis (mono_tags, lifting) map_eq_conv)
    also have "\<dots> = length xs * prod_list s'"
      by (simp add: sum_list_triv)
    finally show ?thesis using s by simp
  qed
qed simp_all

lemma np_array_well_formed:
  "np_array rt obj dt = Inr a \<Longrightarrow> length (arr_data a) = prod_list (arr_shape a)"
  by (auto simp: np_array_def np_dims_leaves dest: cast_all_length split: option.splits sum.splits)

lemma reshape_well_formed:
  "reshape a target = Inr b \<Longrightarrow> length (arr_data a) = prod_list (arr_shape a) \<Longrightarrow>
   length (arr_data b) = prod_list (arr_shape b)"
  by (auto simp: reshape_def split: option.splits if_splits)

lemma transform_to_numpy_well_formed:
  "fst (transform_to_numpy rt (Json v) m) = Inr a \<Longrightarrow>
   length (arr_data a) = prod_list (arr_shape a)"
  by (auto simp: transform_to_numpy_def Let_def
           dest: np_array_well_formed reshape_well_formed
           split: option.splits sum.splits)

subsection \<open>The target shape\<close>

lemma fill_unknown_length: "length (fill_unknown is sh) = length sh"
  by (induction "is" arbitrary: sh) auto

lemma fill_unknown_nth:
  "i < length sh \<Longrightarrow>
   fill_unknown is sh ! i =
     (if i \<in> set is then Some (case sh ! i of None \<Rightarrow> 1 | Some n \<Rightarrow> n) else sh ! i)"
proof (induction "is" arbitrary: sh)
  case Nil
  then show ?case by simp
next
  case (Cons idx rest)
  let ?sh1 = "if sh ! idx = None then sh[idx := Some 1] else sh"
  have len: "i < length ?sh1" using Cons.prems by simp
  show ?case
    using Cons.IH [OF len] Cons.prems
    by (cases "i = idx") (auto split: option.splits)
qed

lemma fill_unknown_all:
  "fill_unknown [0 ..< length sh] sh = map Some (spec_target_shape sh)"
  by (rule nth_equalityI)
     (simp_all add: fill_unknown_length fill_unknown_nth spec_target_shape_def)

lemma those_map_Some: "those (map Some xs) = Some xs"
  by (induction xs) simp_all

lemma reshape_shape: "reshape a (map Some ds) = Inr b \<Longrightarrow> arr_shape b = ds"
  by (auto simp: reshape_def those_map_Some split: if_splits)

lemma transform_to_numpy_result:
  "map_of onnx_to_np (type m) = Some dt \<Longrightarrow>
   fst (transform_to_numpy rt v m) =
     (case (case v of Json j \<Rightarrow> np_array rt j dt | NdArray a \<Rightarrow> Inr a) of
        Inl e \<Rightarrow> Inl e
      | Inr np_arr \<Rightarrow> reshape np_arr (map Some (spec_target_shape (shape m))))"
  by (simp add: transform_to_numpy_def fill_unknown_all Let_def split: sum.splits)

lemma transform_to_numpy_shape:
  "fst (transform_to_numpy rt v m) = Inr a \<Longrightarrow> arr_shape a = spec_target_shape (shape m)"
  by (auto simp: transform_to_numpy_def fill_unknown_all Let_def reshape_shape
           split: option.splits sum.splits)

text \<open>
  C7. Whatever the descriptor and the value: when the declared type is in the table, the
  array built from the value (or the value itself when it is an array already) is
  reshaped to the declared shape with every unknown dimension replaced by 1, and a
  tensor that comes back has exactly that shape. In particular \<^verbatim>\<open>[1, 2, 3]\<close> against
  the declared shape \<^verbatim>\<open>[None, 3]\<close> gives a tensor of shape \<^verbatim>\<open>[1, 3]\<close>, for every
  element type of the table to which numpy converts the three numbers.
\<close>

theorem transform_to_numpy_target_shape:
  "(map_of onnx_to_np (type m) = Some dt \<longrightarrow>
      fst (transform_to_numpy rt v m) =
        (case (case v of Json j \<Rightarrow> np_array rt j dt | NdArray a \<Rightarrow> Inr a) of
           Inl e \<Rightarrow> Inl e
         | Inr np_arr \<Rightarrow> reshape np_arr (map Some (spec_target_shape (shape m)))))
   \<and> (fst (transform_to_numpy rt v m) = Inr t \<longrightarrow> arr_shape t = spec_target_shape (shape m))
   \<and> (map_of onnx_to_np ty = Some d
        \<and> np_scalar rt d (JInt 1) = Inr e1
        \<and> np_scalar rt d (JInt 2) = Inr e2
        \<and> np_scalar rt d (JInt 3) = Inr e3 \<longrightarrow>
      fst (transform_to_numpy rt (Json (JList [JInt 1, JInt 2, JInt 3]))
             \<lparr>name = n, type = ty, shape = [None, Some 3]\<rparr>)
        = Inr \<lparr>dtype = d, arr_shape = [1, 3], arr_data = [e1, e2, e3]\<rparr>)"
proof (intro conjI impI)
  assume "map_of onnx_to_np (type m) = Some dt"
  then show "fst (transform_to_numpy rt v m) =
        (case (case v of Json j \<Rightarrow> np_array rt j dt | NdArray a \<Rightarrow> Inr a) of
           Inl e \<Rightarrow> Inl e
         | Inr np_arr \<Rightarrow> reshape np_arr (map Some (spec_target_shape (shape m))))"
    by (rule transform_to_numpy_result)
next
  assume "fst (transform_to_numpy rt v m) = Inr t"
  then show "arr_shape t = spec_target_shape (shape m)"
    by (rule transform_to_numpy_shape)
next
  assume "map_of onnx_to_np ty = Some d
        \<and> np_scalar rt d (JInt 1) = Inr e1
        \<and> np_scalar rt d (JInt 2) = Inr e2
        \<and> np_scalar rt d (JInt 3) = Inr e3"
  then show "fst (transform_to_numpy rt (Json (JList [JInt 1, JInt 2, JInt 3]))
             \<lparr>name = n, type = ty, shape = [None, Some 3]\<rparr>)
        = Inr \<lparr>dtype = d, arr_shape = [1, 3], arr_data = [e1, e2, e3]\<rparr>"
    by (simp add: transform_to_numpy_def np_array_def reshape_def Let_def)
qed

theorem transform_to_numpy_target_shape_witness:
  "map_of onnx_to_np (type example_input) = Some ''int64''
   \<and> np_scalar example_runtime ''int64'' (JInt 1) = Inr (JInt 1)
   \<and> np_scalar example_runtime ''int64'' (JInt 2) = Inr (JInt 2)
   \<and> np_scalar example_runtime ''int64'' (JInt 3) = Inr (JInt 3)
   \<and> fst (transform_to_numpy example_runtime (Json (JList [JInt 1, JInt 2, JInt 3]))
            \<lparr>name = ''x'', type = ''tensor(int64)'', shape = [None, Some 3]\<rparr>)
       = Inr \<lparr>dtype = ''int64'', arr_shape = [1, 3], arr_data = [JInt 1, JInt 2, JInt 3]\<rparr>
   \<and> spec_target_shape [None, Some 3] = [1, 3]"
proof -
  have ty: "map_of onnx_to_np ''tensor(int64)'' = Some ''int64''"
    by (simp add: onnx_to_np_def)
  have sc: "np_scalar example_runtime ''int64'' (JInt 1) = Inr (JInt 1)"
    "np_scalar example_runtime ''int64'' (JInt 2) = Inr (JInt 2)"
    "np_scalar example_runtime ''int64'' (JInt 3) = Inr (JInt 3)"
    by (simp_all add: example_runtime_def example_scalar_def)
  have "fst (transform_to_numpy example_runtime (Json (JList [JInt 1, JInt 2, JInt 3]))
            \<lparr>name = ''x'', type = ''tensor(int64)'', shape = [None, Some 3]\<rparr>)
       = Inr \<lparr>dtype = ''int64'', arr_shape = [1, 3], arr_data = [JInt 1, JInt 2, JInt 3]\<rparr>"
    using transform_to_numpy_target_shape
            [where rt = example_runtime and ty = "''tensor(int64)''" and d = "''int64''"
               and ?e1.0 = "JInt 1" and ?e2.0 = "JInt 2" and ?e3.0 = "JInt 3" and n = "''x''"]
          ty sc
    by blast
  then show ?thesis
    using ty sc by (simp add: example_input_def spec_target_shape_def)
qed

subsection \<open>The descriptor after a coercion\<close>





subsection \<open>Several inputs\<close>

text \<open>
  C2. The claim is that with more than one declared input a sample that is not a
  mapping, or a mapping that lacks a name, is refused with the error that names the
  expected keys, and with no other error. With two or more descriptors the first turn
  of the loop looks up a method \<^verbatim>\<open>is_dict\<close> on the sample, and every sample, mapping or
  not, raises \<^verbatim>\<open>AttributeError\<close> there; the descriptors are left as they were.
\<close>

theorem convert_several_inputs_attribute_error:
  "convert_to_onnx_input rt sample (m1 # m2 # rest)
     = (Inl (AttributeError
               (quote (py_type_name sample) @ '' object has no attribute '' @ quote ''is_dict'')),
        m1 # m2 # rest)"
  by (simp add: method_is_dict_def)

text \<open>
  C3. The claim is that with several inputs a mapping that has every declared name
  gives back the mapping from each name to the coercion of the value under that name.
  For the inputs \<^verbatim>\<open>x\<close> and \<^verbatim>\<open>y\<close> and the sample \<^verbatim>\<open>{"x": [1, 2, 3], "y": [4]}\<close> no
  mapping comes back: the call raises \<^verbatim>\<open>AttributeError\<close>.
\<close>

theorem convert_several_inputs_all_names_present:
  "fst (convert_to_onnx_input rt
          (JDict [(''x'', JList [JInt 1, JInt 2, JInt 3]), (''y'', JList [JInt 4])])
          [example_input, example_second_input])
     = Inl (AttributeError (quote ''dict'' @ '' object has no attribute '' @ quote ''is_dict''))"
  by (simp add: method_is_dict_def)

subsection \<open>The body of the request\<close>

text \<open>
  What the handler does answer with 406: a body that is not a mapping or has no key
  \<^verbatim>\<open>samples\<close>, and a \<^verbatim>\<open>samples\<close> that has a length and is not a list (a string, a
  mapping).
\<close>

lemma predict_no_samples_key:
  "\<not> is_dict payload \<or> \<not> has_key payload ''samples'' \<Longrightarrow>
   fst (predict rt lc (Inr payload)) =
     prediction_failed rt (Json payload) ''top level `samples` key not found in request''"
  by (auto simp: predict_def)

lemma predict_samples_sized_not_list:
  "map_of kvs ''samples'' = Some samples \<Longrightarrow> py_len samples = Inr n \<Longrightarrow> \<not> is_list samples \<Longrightarrow>
   fst (predict rt lc (Inr (JDict kvs))) =
     prediction_failed rt (Json (JDict kvs))
       ''expected the value of key `samples` to be a list of json objects''"
  by (simp add: predict_def)

text \<open>
  C4. The claim is that a body whose \<^verbatim>\<open>samples\<close> is not a sequence is answered with
  406. For the body \<^verbatim>\<open>{"samples": 5}\<close> the handler takes \<^verbatim>\<open>len\<close> of the number before
  it tests for a list, and the \<^verbatim>\<open>TypeError\<close> leaves the handler uncaught.
\<close>

theorem predict_samples_without_len_uncaught:
  "fst (predict rt lc (Inr (JDict [(''samples'', JInt 5)])))
     = Inl (TypeError (''object of type '' @ quote ''int'' @ '' has no len()''))"
  by (simp add: predict_def)

theorem predict_samples_without_len_uncaught_witness:
  "fst (predict example_runtime example_cache (Inr (JDict [(''samples'', JInt 5)])))
     = Inl (TypeError (''object of type '' @ quote ''int'' @ '' has no len()''))"
  by (rule predict_samples_without_len_uncaught)

subsection \<open>Outputs of the engine\<close>

lemma marshal_append:
  "marshal outs acc = acc @ map (\<lambda>out. case out of Arr a \<Rightarrow> tolist a | Other v \<Rightarrow> v) outs"
  by (induction outs arbitrary: acc) (auto split: engine_output.splits)

text \<open>
  C9. The loop over the outputs of the engine gives one value for each output, in the
  order of the outputs: the nested list of a dense array, and any other output as it is.
\<close>

theorem marshal_outputs:
  "marshal model_outputs [] =
     map (\<lambda>out. case out of Arr a \<Rightarrow> tolist a | Other v \<Rightarrow> v) model_outputs
   \<and> length (marshal model_outputs []) = length model_outputs"
  by (simp add: marshal_append)

subsection \<open>One input\<close>

text \<open>
  C6, as amended. With exactly one declared input: a sample that is not a mapping is
  coerced whole, and the result is the mapping from the input's name to that tensor (or
  the error of the coercion); a mapping that binds the name to a value other than null
  has that value coerced in the same way; a mapping without the name is refused with
  the error that names the missing key.
\<close>

theorem convert_one_input_dispatch:
  "(\<not> is_dict sample \<longrightarrow>
      convert_to_onnx_input rt sample [m] =
        (case transform_to_numpy rt (Json sample) m of
           (r, m') \<Rightarrow> (case r of Inl e \<Rightarrow> Inl e | Inr a \<Rightarrow> Inr [(name m, a)], [m'])))
   \<and> (map_of kvs (name m) = Some v \<and> v \<noteq> JNull \<longrightarrow>
      convert_to_onnx_input rt (JDict kvs) [m] =
        (case transform_to_numpy rt (Json v) m of
           (r, m') \<Rightarrow> (case r of Inl e \<Rightarrow> Inl e | Inr a \<Rightarrow> Inr [(name m, a)], [m'])))
   \<and> (map_of kvs (name m) = None \<longrightarrow>
      convert_to_onnx_input rt (JDict kvs) [m] =
        (Inl (ValueError (''sample should be a dict containing key: '' @ name m)), [m]))"
  by (auto split: prod.splits sum.splits)

theorem convert_one_input_dispatch_witness:
  "\<not> is_dict (JList [JInt 1, JInt 2, JInt 3])
   \<and> convert_to_onnx_input example_runtime (JList [JInt 1, JInt 2, JInt 3]) [example_input]
       = (Inr [(''x'', \<lparr>dtype = ''int64'', arr_shape = [1, 3],
                         arr_data = [JInt 1, JInt 2, JInt 3]\<rparr>)],
          [example_input])
   \<and> map_of [(''x'', JList [JInt 1, JInt 2, JInt 3])] (name example_input)
       = Some (JList [JInt 1, JInt 2, JInt 3])
   \<and> JList [JInt 1, JInt 2, JInt 3] \<noteq> JNull
   \<and> convert_to_onnx_input example_runtime
        (JDict [(''x'', JList [JInt 1, JInt 2, JInt 3])]) [example_input]
       = (Inr [(''x'', \<lparr>dtype = ''int64'', arr_shape = [1, 3],
                         arr_data = [JInt 1, JInt 2, JInt 3]\<rparr>)],
          [example_input])
   \<and> map_of [(''z'', JInt 1)] (name example_input) = None
   \<and> convert_to_onnx_input example_runtime (JDict [(''z'', JInt 1)]) [example_input]
       = (Inl (ValueError ''sample should be a dict containing key: x''), [example_input])"
proof -
  have t: "transform_to_numpy example_runtime (Json (JList [JInt 1, JInt 2, JInt 3])) example_input
             = (Inr \<lparr>dtype = ''int64'', arr_shape = [1, 3],
                     arr_data = [JInt 1, JInt 2, JInt 3]\<rparr>,
                example_input)"
    by (simp add: transform_to_numpy_def example_input_def onnx_to_np_def np_array_def
          example_runtime_def example_scalar_def reshape_def Let_def)
  have n: "name example_input = ''x''"
    by (simp add: example_input_def)
  have a: "convert_to_onnx_input example_runtime (JList [JInt 1, JInt 2, JInt 3]) [example_input]
       = (Inr [(''x'', \<lparr>dtype = ''int64'', arr_shape = [1, 3],
                         arr_data = [JInt 1, JInt 2, JInt 3]\<rparr>)],
          [example_input])"
    using convert_one_input_dispatch
            [where sample = "JList [JInt 1, JInt 2, JInt 3]" and rt = example_runtime
               and m = example_input, THEN conjunct1]
    by (simp add: t n)
  have b: "convert_to_onnx_input example_runtime
        (JDict [(''x'', JList [JInt 1, JInt 2, JInt 3])]) [example_input]
       = (Inr [(''x'', \<lparr>dtype = ''int64'', arr_shape = [1, 3],
                         arr_data = [JInt 1, JInt 2, JInt 3]\<rparr>)],
          [example_input])"
    using convert_one_input_dispatch
            [where kvs = "[(''x'', JList [JInt 1, JInt 2, JInt 3])]" and rt = example_runtime
               and m = example_input and v = "JList [JInt 1, JInt 2, JInt 3]",
             THEN conjunct2, THEN conjunct1]
    by (simp add: t n)
  have c: "convert_to_onnx_input example_runtime (JDict [(''z'', JInt 1)]) [example_input]
       = (Inl (ValueError ''sample should be a dict containing key: x''), [example_input])"
    using convert_one_input_dispatch
            [where kvs = "[(''z'', JInt 1)]" and rt = example_runtime and m = example_input,
             THEN conjunct2, THEN conjunct2]
    by (simp add: n)
  show ?thesis
    using a b c by (simp add: n)
qed

text \<open>
  C6 as it was stated fails where the mapping has the name and binds it to null: the
  name is a key of \<^verbatim>\<open>{"x": null}\<close>, yet the result is the error for a missing key and
  not the coercion of the value under the key.
\<close>

theorem convert_one_input_dispatch_counterexample:
  "map_of [(''x'', JNull)] (name example_input) = Some JNull
   \<and> fst (convert_to_onnx_input example_runtime (JDict [(''x'', JNull)]) [example_input])
       = Inl (ValueError ''sample should be a dict containing key: x'')
   \<and> fst (convert_to_onnx_input example_runtime (JDict [(''x'', JNull)]) [example_input])
       \<noteq> (case fst (transform_to_numpy example_runtime (Json JNull) example_input) of
            Inl e \<Rightarrow> Inl e
          | Inr a \<Rightarrow> Inr [(''x'', a)])"
  by (simp add: transform_to_numpy_def example_input_def onnx_to_np_def np_array_def
        example_runtime_def example_scalar_def Let_def)

text \<open>
  C10. With exactly one declared input, a mapping that has the input's name and binds
  it to null is refused with the error for a missing key, and the call does what it
  does on the same mapping with the key taken out: what decides is whether
  \<^verbatim>\<open>sample.get(name)\<close> is \<^verbatim>\<open>None\<close>, not whether the name is a key.
\<close>

theorem null_value_counts_as_missing:
  "map_of kvs (name m) = Some JNull \<longrightarrow>
     convert_to_onnx_input rt (JDict kvs) [m] =
       (Inl (ValueError (''sample should be a dict containing key: '' @ name m)), [m])
     \<and> convert_to_onnx_input rt (JDict kvs) [m] =
       convert_to_onnx_input rt (JDict (AList.delete (name m) kvs)) [m]"
  by (simp add: delete_conv)

theorem null_value_counts_as_missing_witness:
  "map_of [(''x'', JNull)] (name example_input) = Some JNull
   \<and> convert_to_onnx_input example_runtime (JDict [(''x'', JNull)]) [example_input]
       = (Inl (ValueError ''sample should be a dict containing key: x''), [example_input])
   \<and> convert_to_onnx_input example_runtime (JDict [(''x'', JNull)]) [example_input]
       = convert_to_onnx_input example_runtime (JDict []) [example_input]"
  using null_value_counts_as_missing
          [where kvs = "[(''x'', JNull)]" and m = example_input and rt = example_runtime]
  by (simp add: example_input_def)

subsection \<open>The batch\<close>

lemma succeeded_pair: "\<not> isl (fst r) \<Longrightarrow> \<exists>p m. r = (Inr p, m)"
  by (cases r, cases "fst r") auto

lemma predict_loop_failure:
  "i < length samples \<Longrightarrow>
   fst (run_sample rt lc (metas_before rt lc metas samples i) (samples ! i)) = Inl failure \<Longrightarrow>
   (\<forall>j<i. \<not> isl (fst (run_sample rt lc (metas_before rt lc metas samples j) (samples ! j)))) \<Longrightarrow>
   fst (predict_loop rt lc metas k samples preds) = sample_failed rt (k + i) failure"
proof (induction samples arbitrary: metas k preds i)
  case Nil
  then show ?case by simp
next
  case (Cons s rest)
  show ?case
  proof (cases i)
    case 0
    with Cons.prems show ?thesis
      by (auto split: prod.splits sum.splits)
  next
    case (Suc i')
    from Cons.prems(3) Suc have "\<not> isl (fst (run_sample rt lc metas s))"
      by (metis metas_before.simps(1) nth_Cons_0 zero_less_Suc)
    then obtain p metas' where rs: "run_sample rt lc metas s = (Inr p, metas')"
      using succeeded_pair by blast
    have i': "i' < length rest" using Cons.prems(1) Suc by simp
    have f: "fst (run_sample rt lc (metas_before rt lc metas' rest i') (rest ! i')) = Inl failure"
      using Cons.prems(2) Suc rs by simp
    have b: "\<forall>j<i'. \<not> isl (fst (run_sample rt lc (metas_before rt lc metas' rest j) (rest ! j)))"
    proof (intro allI impI)
      fix j assume "j < i'"
      then have "Suc j < i" using Suc by simp
      with Cons.prems(3) have "\<not> isl (fst (run_sample rt lc (metas_before rt lc metas (s # rest) (Suc j)) ((s # rest) ! Suc j)))"
        by blast
      then show "\<not> isl (fst (run_sample rt lc (metas_before rt lc metas' rest j) (rest ! j)))"
        using rs by simp
    qed
    from Cons.IH [OF i' f b, of "Suc k" "preds @ [p]"] show ?thesis
      using rs Suc by simp
  qed
qed

lemma predict_loop_success:
  "(\<forall>i<length samples. \<not> isl (fst (run_sample rt lc (metas_before rt lc metas samples i) (samples ! i)))) \<Longrightarrow>
   fst (predict_loop rt lc metas k samples preds) =
     Inr (jsonify [(''predictions'',
               JList (preds @ map (\<lambda>i. projr (fst (run_sample rt lc (metas_before rt lc metas samples i) (samples ! i))))
                                  [0 ..< length samples])),
              (''resource_id'', JStr (api_id lc))])"
proof (induction samples arbitrary: metas k preds)
  case Nil
  then show ?case by simp
next
  case (Cons s rest)
  from Cons.prems have "\<not> isl (fst (run_sample rt lc metas s))"
    by (metis length_greater_0_conv list.distinct(1) metas_before.simps(1) nth_Cons_0)
  then obtain p metas' where rs: "run_sample rt lc metas s = (Inr p, metas')"
    using succeeded_pair by blast
  have b: "\<forall>i<length rest. \<not> isl (fst (run_sample rt lc (metas_before rt lc metas' rest i) (rest ! i)))"
  proof (intro allI impI)
    fix i assume "i < length rest"
    then have "Suc i < length (s # rest)" by simp
    with Cons.prems have "\<not> isl (fst (run_sample rt lc (metas_before rt lc metas (s # rest) (Suc i)) ((s # rest) ! Suc i)))"
      by blast
    then show "\<not> isl (fst (run_sample rt lc (metas_before rt lc metas' rest i) (rest ! i)))"
      using rs by simp
  qed
  have m: "map (\<lambda>i. projr (fst (run_sample rt lc (metas_before rt lc metas (s # rest) i) ((s # rest) ! i))))
             [0 ..< length (s # rest)]
           = p # map (\<lambda>i. projr (fst (run_sample rt lc (metas_before rt lc metas' rest i) (rest ! i))))
                 [0 ..< length rest]"
  proof -
    have "[0 ..< length (s # rest)] = 0 # map Suc [0 ..< length rest]"
      by (simp add: upt_conv_Cons map_Suc_upt del: upt_Suc)
    then show ?thesis using rs by (simp add: o_def del: upt_Suc)
  qed
  from Cons.IH [OF b, of "Suc k" "preds @ [p]"] show ?case
    using rs m by simp
qed


lemma run_sample_prediction:
  "fst (run_sample rt lc metas s) = Inr p \<Longrightarrow> \<exists>result. p = JDict [(''prediction'', result)]"
  by (auto simp: run_sample_def split: sum.splits prod.splits)

lemma predict_on_list:
  "py_getitem payload ''samples'' = Inr (JList samples) \<Longrightarrow>
   fst (predict rt lc (Inr payload)) = fst (predict_loop rt lc (input_metadata lc) 0 samples [])"
  by (cases payload) (auto simp: predict_def split: prod.splits option.splits)


text \<open>
  The first failure of a batch decides the response: it is what \<^verbatim>\<open>prediction_failed\<close>
  gives for the value of \<^verbatim>\<open>sample\<close> at the failure and the error. When that value
  is a JSON value, that is the 406 with the failure message, and no list of
  predictions.
\<close>

lemma predict_first_failure:
  assumes "py_getitem payload ''samples'' = Inr (JList samples)"
    and "i < length samples"
    and "isl (outcome rt lc samples i)"
  shows "\<exists>j e sample.
           j \<le> i \<and> outcome rt lc samples j = Inl (e, sample)
           \<and> (\<forall>k<j. \<not> isl (outcome rt lc samples k))
           \<and> fst (predict rt lc (Inr payload))
               = prediction_failed rt sample (failure_reason rt j e)"
proof -
  define j where "j = (LEAST k. isl (outcome rt lc samples k))"
  have fails: "isl (outcome rt lc samples j)"
    unfolding j_def using assms(3) by (rule LeastI)
  have le: "j \<le> i"
    unfolding j_def using assms(3) by (rule Least_le)
  have first: "\<forall>k<j. \<not> isl (outcome rt lc samples k)"
    unfolding j_def using not_less_Least by blast
  from fails obtain e sample where out: "outcome rt lc samples j = Inl (e, sample)"
    by (cases "outcome rt lc samples j") auto
  have len: "j < length samples" using le assms(2) by simp
  have "fst (predict rt lc (Inr payload)) = prediction_failed rt sample (failure_reason rt j e)"
    using predict_loop_failure [of j samples rt lc "input_metadata lc" "(e, sample)" 0 "[]"]
      assms(1) len out first
    by (simp add: predict_on_list outcome_def sample_failed_def)
  with le out first show ?thesis by blast
qed

lemma prediction_failed_json:
  "prediction_failed rt (Json v) reason =
     Inr (Response 406
            (Text (''prediction failed for sample: '' @ json_dumps rt v
                   @ (if reason \<noteq> [] then '' ('' @ reason @ '')'' else []))))"
  by (simp add: prediction_failed_def)

lemma prediction_failed_array:
  "prediction_failed rt (NdArray a) reason =
     Inl (TypeError ''Object of type ndarray is not JSON serializable'')"
  by (simp add: prediction_failed_def)

text \<open>
  C5. The claim is that a batch with a failing sample is always answered with one 406.
  Take the one declared input of shape \<^verbatim>\<open>[None, 3]\<close>, a hook before the inference that
  returns a dense array of two elements, and the body \<^verbatim>\<open>{"samples": [[1, 2]]}\<close>. The
  sample at index 0 fails in the coercion (the array cannot be reshaped), the variable
  \<^verbatim>\<open>sample\<close> holds the array, and \<^verbatim>\<open>json.dumps\<close> raises on it inside the \<^verbatim>\<open>except\<close>
  clause: the \<^verbatim>\<open>TypeError\<close> leaves the handler and there is no 406.
\<close>

theorem predict_array_sample_failure_uncaught:
  "outcome rt example_array_cache [JList [JInt 1, JInt 2]] 0
     = Inl (ValueError ''cannot reshape array'',
            NdArray \<lparr>dtype = ''int64'', arr_shape = [2], arr_data = [JInt 1, JInt 2]\<rparr>)
   \<and> fst (predict rt example_array_cache
             (Inr (JDict [(''samples'', JList [JList [JInt 1, JInt 2]])])))
       = Inl (TypeError ''Object of type ndarray is not JSON serializable'')"
proof -
  have out: "outcome rt example_array_cache [JList [JInt 1, JInt 2]] 0
     = Inl (ValueError ''cannot reshape array'',
            NdArray \<lparr>dtype = ''int64'', arr_shape = [2], arr_data = [JInt 1, JInt 2]\<rparr>)"
    by (simp add: outcome_def run_sample_def apply_pre_def example_array_cache_def
          example_array_hook_def example_cache_def example_input_def
          transform_to_numpy_def onnx_to_np_def reshape_def Let_def)
  have "fst (predict rt example_array_cache
               (Inr (JDict [(''samples'', JList [JList [JInt 1, JInt 2]])])))
          = fst (predict_loop rt example_array_cache (input_metadata example_array_cache) 0
                   [JList [JInt 1, JInt 2]] [])"
    by (rule predict_on_list) simp
  also have "\<dots> = Inl (TypeError ''Object of type ndarray is not JSON serializable'')"
    using out
    by (auto simp: outcome_def sample_failed_def prediction_failed_array
             split: prod.splits sum.splits)
  finally show ?thesis using out by simp
qed

theorem predict_array_sample_failure_uncaught_witness:
  "outcome example_runtime example_array_cache [JList [JInt 1, JInt 2]] 0
     = Inl (ValueError ''cannot reshape array'',
            NdArray \<lparr>dtype = ''int64'', arr_shape = [2], arr_data = [JInt 1, JInt 2]\<rparr>)
   \<and> fst (predict example_runtime example_array_cache
             (Inr (JDict [(''samples'', JList [JList [JInt 1, JInt 2]])])))
       = Inl (TypeError ''Object of type ndarray is not JSON serializable'')"
  by (rule predict_array_sample_failure_uncaught)

text \<open>
  C8. When the body carries a list of samples and every sample succeeds, the response
  is 200 with the body \<^verbatim>\<open>{"predictions": [...], "resource_id": id}\<close>; the list has one
  prediction for each sample, the prediction at an index is what the body of the loop
  gave for the sample at that index, and each is \<^verbatim>\<open>{"prediction": result}\<close>.
\<close>

theorem predict_all_samples_succeed:
  assumes "py_getitem payload ''samples'' = Inr (JList samples)"
    and "\<forall>i<length samples. \<not> isl (outcome rt lc samples i)"
  shows "fst (predict rt lc (Inr payload)) =
           Inr (Response 200
                  (JsonBody
                     (JDict [(''predictions'',
                              JList (map (\<lambda>i. projr (outcome rt lc samples i))
                                         [0 ..< length samples])),
                             (''resource_id'', JStr (api_id lc))])))
         \<and> length (map (\<lambda>i. projr (outcome rt lc samples i)) [0 ..< length samples])
             = length samples
         \<and> (\<forall>i<length samples.
               \<exists>result. outcome rt lc samples i = Inr (JDict [(''prediction'', result)]))"
proof (intro conjI allI impI)
  show "fst (predict rt lc (Inr payload)) =
           Inr (Response 200
                  (JsonBody
                     (JDict [(''predictions'',
                              JList (map (\<lambda>i. projr (outcome rt lc samples i))
                                         [0 ..< length samples])),
                             (''resource_id'', JStr (api_id lc))])))"
    using predict_loop_success [of samples rt lc "input_metadata lc" 0 "[]"] assms
    by (simp add: predict_on_list outcome_def jsonify_def)
next
  show "length (map (\<lambda>i. projr (outcome rt lc samples i)) [0 ..< length samples])
          = length samples"
    by simp
next
  fix i assume "i < length samples"
  with assms(2) obtain p where p: "outcome rt lc samples i = Inr p"
    by (cases "outcome rt lc samples i") auto
  then show "\<exists>result. outcome rt lc samples i = Inr (JDict [(''prediction'', result)])"
    using run_sample_prediction unfolding outcome_def by blast
qed

theorem predict_all_samples_succeed_witness:
  "py_getitem
     (JDict [(''samples'', JList [JList [JInt 1, JInt 2, JInt 3], JList [JInt 4, JInt 5, JInt 6]])])
     ''samples''
     = Inr (JList [JList [JInt 1, JInt 2, JInt 3], JList [JInt 4, JInt 5, JInt 6]])
   \<and> \<not> isl (outcome example_runtime example_cache
               [JList [JInt 1, JInt 2, JInt 3], JList [JInt 4, JInt 5, JInt 6]] 0)
   \<and> \<not> isl (outcome example_runtime example_cache
               [JList [JInt 1, JInt 2, JInt 3], JList [JInt 4, JInt 5, JInt 6]] (Suc 0))
   \<and> fst (predict example_runtime example_cache
             (Inr (JDict [(''samples'',
                           JList [JList [JInt 1, JInt 2, JInt 3],
                                  JList [JInt 4, JInt 5, JInt 6]])])))
       = Inr (Response 200
                (JsonBody
                   (JDict
                      [(''predictions'',
                        JList
                          [JDict [(''prediction'', JList [JList [JList [JInt 1, JInt 2, JInt 3]]])],
                           JDict [(''prediction'', JList [JList [JList [JInt 4, JInt 5, JInt 6]]])]]),
                       (''resource_id'', JStr ''a1'')])))"
proof -
  let ?ss = "[JList [JInt 1, JInt 2, JInt 3], JList [JInt 4, JInt 5, JInt 6]]"
  let ?p = "JDict [(''samples'', JList ?ss)]"
  have h1: "py_getitem ?p ''samples'' = Inr (JList ?ss)" by simp
  have o0: "outcome example_runtime example_cache ?ss 0
              = Inr (JDict [(''prediction'', JList [JList [JList [JInt 1, JInt 2, JInt 3]]])])"
    by code_simp
  have o1: "outcome example_runtime example_cache ?ss (Suc 0)
              = Inr (JDict [(''prediction'', JList [JList [JList [JInt 4, JInt 5, JInt 6]]])])"
    by code_simp
  have h2: "\<forall>i<length ?ss. \<not> isl (outcome example_runtime example_cache ?ss i)"
    by (simp add: less_Suc_eq o0 o1 all_conj_distrib)
  have id: "api_id example_cache = ''a1''"
    by (simp add: example_cache_def)
  from predict_all_samples_succeed [OF h1 h2, THEN conjunct1]
  have "fst (predict example_runtime example_cache (Inr ?p))
          = Inr (Response 200
                   (JsonBody
                      (JDict
                         [(''predictions'',
                           JList
                             [JDict [(''prediction'', JList [JList [JList [JInt 1, JInt 2, JInt 3]]])],
                              JDict [(''prediction'', JList [JList [JList [JInt 4, JInt 5, JInt 6]]])]]),
                          (''resource_id'', JStr ''a1'')])))"
    by (simp add: o0 o1 id)
  then show ?thesis
    using h1 by (simp add: o0 o1)
qed

end
